theory Spec2Isabelle
  imports
    Complex_Main
    "HOL-Library.Char_ord"
    "HOL-Library.List_Lexorder"
    "HOL-Library.Multiset"
    "HOL-Library.Product_Lexorder"
begin

section \<open>Data model\<close>

text \<open>
  The dashboard script \<^verbatim>\<open>app/main.py\<close> works on pandas DataFrames. A cell of a frame is a
  number (float64 and int64 values are idealised as reals, rounding is not modelled; a parsed
  datetime is carried as its number), a string (object dtype), or the missing-value marker NaN.
  A frame is its ordered column labels together with its rows; a row maps a column label to
  its cell.
\<close>

datatype cell = Num real | Str string | NaN

type_synonym row = "string \<rightharpoonup> cell"

record dataframe =
  columns :: "string list"
  rows :: "row list"

text \<open>Exceptions that can end a run of the script.\<close>

datatype py_error =
    KeyError string
  | TypeError
  | ValueError string
  | ReadError string

text \<open>The cell of a row under a label; a label the row does not carry reads as NaN.\<close>

definition cell_at :: "row \<Rightarrow> string \<Rightarrow> cell" where
  "cell_at r c = (case r c of Some v \<Rightarrow> v | None \<Rightarrow> NaN)"

text \<open>\<^verbatim>\<open>pd.DataFrame()\<close>: no columns, no rows.\<close>

definition DataFrame_empty :: dataframe where
  "DataFrame_empty = \<lparr>columns = [], rows = []\<rparr>"

text \<open>\<^verbatim>\<open>df.empty\<close>: some axis has length 0.\<close>

definition df_empty :: "dataframe \<Rightarrow> bool" where
  "df_empty d \<longleftrightarrow> columns d = [] \<or> rows d = []"

text \<open>\<^verbatim>\<open>df[c] = v\<close> for a scalar: every row gets the value; a new label is appended.\<close>

definition set_column :: "string \<Rightarrow> cell \<Rightarrow> dataframe \<Rightarrow> dataframe" where
  "set_column c v d =
     \<lparr>columns = (if c \<in> set (columns d) then columns d else columns d @ [c]),
      rows = map (\<lambda>r. r(c \<mapsto> v)) (rows d)\<rparr>"

text \<open>\<^verbatim>\<open>Series.unique()\<close>: the distinct values in order of first appearance.\<close>

definition unique :: "'a list \<Rightarrow> 'a list" where
  "unique xs = rev (remdups (rev xs))"

text \<open>
  \<^verbatim>\<open>pd.concat(dfs, ignore_index=True)\<close>: the rows of the frames one after the other, over the
  union of their columns (in order of first appearance); a cell a frame does not have is NaN.
\<close>

definition reindex :: "string list \<Rightarrow> row \<Rightarrow> row" where
  "reindex cols r = (\<lambda>c. if c \<in> set cols then Some (cell_at r c) else None)"

definition pd_concat :: "dataframe list \<Rightarrow> dataframe" where
  "pd_concat dfs =
     (let cols = unique (concat (map columns dfs))
      in \<lparr>columns = cols, rows = concat (map (\<lambda>d. map (reindex cols) (rows d)) dfs)\<rparr>)"

section \<open>The environment and the calls to the user interface\<close>

text \<open>
  The script reads the file system through \<^verbatim>\<open>os.path.exists\<close> and
  \<^verbatim>\<open>pd.read_csv(path, parse_dates=['Timestamp'])\<close>. Both are library calls. The
  environment gives, for a path, whether it exists and the frame pandas reads from its text
  before any date conversion (or the exception it raises: no data, malformed rows, and so
  on), and it gives the date parser: the date-time a text stands for, or \<open>None\<close> for a
  text that cannot be parsed as a date-time.
\<close>

record env =
  path_exists :: "string \<Rightarrow> bool"
  read_table :: "string \<Rightarrow> py_error + dataframe"
  to_datetime :: "string \<Rightarrow> real option"

text \<open>
  The date conversion of \<^verbatim>\<open>read_csv\<close>, as pandas documents it for \<^verbatim>\<open>parse_dates\<close>: a
  listed column that the file does not have is a \<^verbatim>\<open>ValueError\<close>; a column in which every
  value parses is converted (a blank stays missing); and ``if a column or index cannot be
  represented as an array of datetime, say because of an unparsable value [...], the column
  or index will be returned unaltered as an object data type''. Columns listed in
  \<^verbatim>\<open>parse_dates\<close> are read as text, so their cells are strings or NaN.
\<close>

fun convert_cell :: "(string \<Rightarrow> real option) \<Rightarrow> cell \<Rightarrow> cell option" where
  "convert_cell conv (Str s) = map_option Num (conv s)"
| "convert_cell conv NaN = Some NaN"
| "convert_cell conv (Num x) = Some (Num x)"

definition parse_dates :: "(string \<Rightarrow> real option) \<Rightarrow> string \<Rightarrow> dataframe \<Rightarrow> py_error + dataframe" where
  "parse_dates conv c df =
     (if c \<notin> set (columns df) then Inl (ValueError c)
      else if list_all (\<lambda>r. convert_cell conv (cell_at r c) \<noteq> None) (rows df) then
        Inr (df\<lparr>rows := map (\<lambda>r. case convert_cell conv (cell_at r c) of
                                   Some v \<Rightarrow> r(c \<mapsto> v) | None \<Rightarrow> r) (rows df)\<rparr>)
      else Inr df)"

definition read_csv :: "env \<Rightarrow> string \<Rightarrow> py_error + dataframe" where
  "read_csv e path =
     (case read_table e path of
        Inl err \<Rightarrow> Inl err
      | Inr df \<Rightarrow> parse_dates (to_datetime e) ''Timestamp'' df)"

text \<open>One row of \<^verbatim>\<open>cleaning_impact_df\<close>.\<close>

record impact_row =
  ir_country :: cell
  ir_cleaning :: cell
  ir_ModA :: "real option"
  ir_ModB :: "real option"
  ir_status :: cell

datatype figure =
    Px_box string string string
  | Px_line string string
  | Px_bar "impact_row list" string

datatype st_call =
    St_set_page_config string
  | St_title string
  | St_sidebar_header string
  | St_sidebar_multiselect string "cell list" "cell list"
  | St_sidebar_selectbox string "string list"
  | St_error string
  | St_warning string
  | St_info string
  | St_subheader string
  | St_plotly_chart figure
  | St_dataframe "string list" "(cell \<times> real option) list"

section \<open>Loading: \<^verbatim>\<open>load_all_cleaned_data\<close>\<close>

text \<open>\<^verbatim>\<open>os.path.join(a, b)\<close> on POSIX, for two components.\<close>

definition path_join :: "string \<Rightarrow> string \<Rightarrow> string" where
  "path_join a b =
     (if b \<noteq> [] \<and> hd b = CHR ''/'' then b
      else if a = [] \<or> last a = CHR ''/'' then a @ b
      else a @ ''/'' @ b)"

definition base_path :: string where
  "base_path = ''../data/''"

definition country_files :: "(string \<times> string) list" where
  "country_files =
     [(''Benin'', ''benin_clean.csv''),
      (''Sierra Leone'', ''sierra_leone_clean.csv''),
      (''Togo'', ''togo_clean.csv'')]"

definition not_found_message :: "string \<Rightarrow> string \<Rightarrow> string" where
  "not_found_message country file_path =
     ''Error: Cleaned data file not found for '' @ country @ '' at '' @ file_path
       @ ''. Please run EDA notebooks first.''"

text \<open>
  The loop over \<^verbatim>\<open>country_files.items()\<close>, with \<^verbatim>\<open>all_dfs\<close> as accumulator. The result is
  the calls made to \<^verbatim>\<open>st\<close> and either the returned frame or the exception that
  \<^verbatim>\<open>read_csv\<close> raised. A missing file ends the function at once with
  \<^verbatim>\<open>return pd.DataFrame()\<close>. The decorator \<^verbatim>\<open>st.cache_data\<close> only memoises the result;
  one call is modelled.
\<close>

fun load_loop :: "env \<Rightarrow> (string \<times> string) list \<Rightarrow> dataframe list
    \<Rightarrow> st_call list \<times> (py_error + dataframe)" where
  "load_loop e [] all_dfs =
     ([], Inr (if all_dfs \<noteq> [] then pd_concat all_dfs else DataFrame_empty))"
| "load_loop e ((country, filename) # rest) all_dfs =
     (let file_path = path_join base_path filename in
      if path_exists e file_path then
        (case read_csv e file_path of
           Inl err \<Rightarrow> ([], Inl err)
         | Inr df \<Rightarrow> load_loop e rest (all_dfs @ [set_column ''Country'' (Str country) df]))
      else ([St_error (not_found_message country file_path)], Inr DataFrame_empty))"

definition load_from :: "env \<Rightarrow> (string \<times> string) list \<Rightarrow> st_call list \<times> (py_error + dataframe)" where
  "load_from e files = load_loop e files []"

definition load_all_cleaned_data :: "env \<Rightarrow> st_call list \<times> (py_error + dataframe)" where
  "load_all_cleaned_data e = load_from e country_files"

section \<open>Filtering by country\<close>

text \<open>\<^verbatim>\<open>df[c]\<close>: the cells of a column, or \<^verbatim>\<open>KeyError\<close> when the frame has no such label.\<close>

definition column :: "dataframe \<Rightarrow> string \<Rightarrow> py_error + cell list" where
  "column d c =
     (if c \<in> set (columns d) then Inr (map (\<lambda>r. cell_at r c) (rows d)) else Inl (KeyError c))"

text \<open>\<^verbatim>\<open>all_countries = df_combined['Country'].unique().tolist()\<close>\<close>

definition all_countries :: "dataframe \<Rightarrow> py_error + cell list" where
  "all_countries df_combined =
     (case column df_combined ''Country'' of Inl err \<Rightarrow> Inl err | Inr cs \<Rightarrow> Inr (unique cs))"

text \<open>
  \<^verbatim>\<open>filtered_df = df_combined[df_combined['Country'].isin(selected_countries)]\<close>: the rows
  whose country is among the selected ones, under the same columns.
\<close>

definition filtered_df :: "dataframe \<Rightarrow> cell list \<Rightarrow> py_error + dataframe" where
  "filtered_df df_combined selected_countries =
     (case column df_combined ''Country'' of
        Inl err \<Rightarrow> Inl err
      | Inr _ \<Rightarrow> Inr (df_combined\<lparr>rows :=
          filter (\<lambda>r. cell_at r ''Country'' \<in> set selected_countries) (rows df_combined)\<rparr>))"

section \<open>Group means\<close>

text \<open>
  Group keys are sorted as pandas sorts them: numbers before strings, numbers by value,
  strings lexicographically by character code.
\<close>

fun cell_key :: "cell \<Rightarrow> nat \<times> real \<times> string" where
  "cell_key (Num x) = (0, x, [])"
| "cell_key (Str s) = (1, 0, s)"
| "cell_key NaN = (2, 0, [])"

fun nums :: "cell list \<Rightarrow> real list" where
  "nums [] = []"
| "nums (Num x # vs) = x # nums vs"
| "nums (_ # vs) = nums vs"

text \<open>
  \<^verbatim>\<open>mean()\<close> skips NaN; the mean of no number at all is NaN (\<open>None\<close> here). On a column
  that holds a string (object dtype) it raises \<^verbatim>\<open>TypeError\<close>.
\<close>

definition mean :: "cell list \<Rightarrow> real option" where
  "mean vs = (let xs = nums vs in if xs = [] then None else Some (sum_list xs / real (length xs)))"

fun is_str :: "cell \<Rightarrow> bool" where
  "is_str (Str _) = True"
| "is_str _ = False"

definition numeric :: "dataframe \<Rightarrow> string \<Rightarrow> bool" where
  "numeric d c \<longleftrightarrow> list_all (\<lambda>r. \<not> is_str (cell_at r c)) (rows d)"

text \<open>
  \<^verbatim>\<open>d.groupby(by)[col].mean()\<close>: one entry per distinct non-NaN key, in sorted key order,
  with the mean of \<open>col\<close> over the rows of that key.
\<close>

definition group_keys :: "dataframe \<Rightarrow> string \<Rightarrow> cell list" where
  "group_keys d by =
     sort_key cell_key (remdups (filter (\<lambda>v. v \<noteq> NaN) (map (\<lambda>r. cell_at r by) (rows d))))"

definition group_mean :: "dataframe \<Rightarrow> string \<Rightarrow> cell \<Rightarrow> string \<Rightarrow> real option" where
  "group_mean d by k col =
     mean (map (\<lambda>r. cell_at r col) (filter (\<lambda>r. cell_at r by = k) (rows d)))"

definition groupby_mean :: "dataframe \<Rightarrow> string \<Rightarrow> string \<Rightarrow> py_error + (cell \<times> real option) list" where
  "groupby_mean d by col =
     (if by \<notin> set (columns d) then Inl (KeyError by)
      else if col \<notin> set (columns d) then Inl (KeyError col)
      else if \<not> numeric d col then Inl TypeError
      else Inr (map (\<lambda>k. (k, group_mean d by k col)) (group_keys d by)))"

text \<open>
  \<^verbatim>\<open>sort_values(ascending=False)\<close>: pandas reverses the non-NaN entries, sorts them
  ascending, reverses the result, and puts the NaN entries last. The sort is taken to be
  stable, so entries with equal values keep their order.
\<close>

fun non_nans :: "('k \<times> real option) list \<Rightarrow> ('k \<times> real) list" where
  "non_nans [] = []"
| "non_nans ((k, Some x) # s) = (k, x) # non_nans s"
| "non_nans ((k, None) # s) = non_nans s"

definition sort_values_desc :: "('k \<times> real option) list \<Rightarrow> ('k \<times> real option) list" where
  "sort_values_desc s =
     map (\<lambda>(k, x). (k, Some x)) (rev (sort_key snd (rev (non_nans s))))
       @ filter (\<lambda>p. snd p = None) s"

section \<open>The ranking table\<close>

text \<open>
  \<^verbatim>\<open>filtered_df.groupby('Country')[col].mean().sort_values(ascending=False).reset_index()\<close>
  for a column \<open>col\<close>; the script calls it with the literal \<^verbatim>\<open>'GHI'\<close>.
\<close>

definition mean_ranking :: "dataframe \<Rightarrow> string \<Rightarrow> py_error + (cell \<times> real option) list" where
  "mean_ranking d col =
     (case groupby_mean d ''Country'' col of Inl err \<Rightarrow> Inl err | Inr s \<Rightarrow> Inr (sort_values_desc s))"

definition avg_ghi_ranking :: "dataframe \<Rightarrow> py_error + (cell \<times> real option) list" where
  "avg_ghi_ranking d = mean_ranking d ''GHI''"

text \<open>A block of the script: the calls it makes to \<^verbatim>\<open>st\<close>, and the exception that ended it, if any.\<close>

type_synonym run = "st_call list \<times> py_error option"

definition then_run :: "run \<Rightarrow> run \<Rightarrow> run" where
  "then_run a b =
     (case a of
        (xs, Some err) \<Rightarrow> (xs, Some err)
      | (xs, None) \<Rightarrow> (case b of (ys, r) \<Rightarrow> (xs @ ys, r)))"

definition ranking_block :: "dataframe \<Rightarrow> run" where
  "ranking_block d =
     then_run ([St_subheader ''Average GHI Ranking (Selected Countries)''], None)
       (if ''GHI'' \<in> set (columns d) then
          (case avg_ghi_ranking d of
             Inl err \<Rightarrow> ([], Some err)
           | Inr r \<Rightarrow> ([St_dataframe [''Country'', ''Average GHI ($W/m^2$)''] r], None))
        else ([St_info ''GHI data not available for ranking in filtered selection.''], None))"

section \<open>The cleaning-impact table\<close>

text \<open>\<^verbatim>\<open>Series.nunique()\<close>: the number of distinct values, NaN not counted.\<close>

definition nunique :: "cell list \<Rightarrow> nat" where
  "nunique vs = length (remdups (filter (\<lambda>v. v \<noteq> NaN) vs))"

text \<open>\<^verbatim>\<open>.map({0: 'No Cleaning', 1: 'Cleaning Occurred'})\<close>: any other value maps to NaN.\<close>

fun cleaning_status :: "cell \<Rightarrow> cell" where
  "cleaning_status (Num x) =
     (if x = 0 then Str ''No Cleaning'' else if x = 1 then Str ''Cleaning Occurred'' else NaN)"
| "cleaning_status _ = NaN"

text \<open>
  The keys of \<^verbatim>\<open>groupby(['Country', 'Cleaning'])\<close>: the pairs that occur in a row, NaN in
  neither place, sorted by country and then by cleaning flag.
\<close>

definition pair_at :: "row \<Rightarrow> cell \<times> cell" where
  "pair_at r = (cell_at r ''Country'', cell_at r ''Cleaning'')"

definition pair_keys :: "dataframe \<Rightarrow> (cell \<times> cell) list" where
  "pair_keys d =
     sort_key (\<lambda>(c, k). (cell_key c, cell_key k))
       (remdups (filter (\<lambda>(c, k). c \<noteq> NaN \<and> k \<noteq> NaN) (map pair_at (rows d))))"

definition pair_mean :: "dataframe \<Rightarrow> cell \<times> cell \<Rightarrow> string \<Rightarrow> real option" where
  "pair_mean d ck col = mean (map (\<lambda>r. cell_at r col) (filter (\<lambda>r. pair_at r = ck) (rows d)))"

text \<open>
  Lines 79 to 82. \<open>Inr None\<close>: the condition of line 79 is false and nothing is computed.
  \<^verbatim>\<open>groupby(['Country', 'Cleaning'])[['ModA', 'ModB']].mean()\<close> raises \<^verbatim>\<open>KeyError\<close> for a
  label the frame does not have and \<^verbatim>\<open>TypeError\<close> on a column of strings.
\<close>

definition cleaning_impact_df :: "dataframe \<Rightarrow> py_error + impact_row list option" where
  "cleaning_impact_df d =
     (if ''Cleaning'' \<in> set (columns d)
         \<and> nunique (map (\<lambda>r. cell_at r ''Cleaning'') (rows d)) > 1 then
        (if ''Country'' \<notin> set (columns d) then Inl (KeyError ''Country'')
         else if ''ModA'' \<notin> set (columns d) then Inl (KeyError ''ModA'')
         else if ''ModB'' \<notin> set (columns d) then Inl (KeyError ''ModB'')
         else if \<not> numeric d ''ModA'' \<or> \<not> numeric d ''ModB'' then Inl TypeError
         else Inr (Some (map (\<lambda>ck.
                \<lparr>ir_country = fst ck, ir_cleaning = snd ck,
                 ir_ModA = pair_mean d ck ''ModA'', ir_ModB = pair_mean d ck ''ModB'',
                 ir_status = cleaning_status (snd ck)\<rparr>) (pair_keys d))))
      else Inr None)"

definition cleaning_block :: "dataframe \<Rightarrow> run" where
  "cleaning_block d =
     (case cleaning_impact_df d of
        Inr None \<Rightarrow> ([], None)
      | Inl err \<Rightarrow> ([St_subheader ''Average ModA & ModB by Cleaning Event''], Some err)
      | Inr (Some t) \<Rightarrow>
          ([St_subheader ''Average ModA & ModB by Cleaning Event'',
            St_plotly_chart (Px_bar t ''Average Module Readings Pre/Post-Cleaning'')], None))"

section \<open>The page\<close>

definition metric_options :: "string list" where
  "metric_options = [''GHI'', ''DNI'', ''DHI'', ''Tamb'', ''RH'', ''WS'', ''BP'']"

text \<open>
  The axis label of the box plot:
  \<^verbatim>\<open>name.split(" ")[-1] if "(" in name else ""\<close> is the part of the column name after its
  last blank when the name has a parenthesis.
\<close>

definition unit_of :: "string \<Rightarrow> string" where
  "unit_of name =
     (if CHR ''('' \<in> set name then rev (takeWhile (\<lambda>c. c \<noteq> CHR '' '') (rev name)) else [])"

text \<open>
  Lines 58 to 67. Reading \<^verbatim>\<open>filtered_df[selected_metric]\<close> for the label raises
  \<^verbatim>\<open>KeyError\<close> when the frame lacks the metric; plotly raises \<^verbatim>\<open>ValueError\<close> for an axis
  that is not a column.
\<close>

definition plots_block :: "dataframe \<Rightarrow> string \<Rightarrow> run" where
  "plots_block d selected_metric =
     then_run ([St_subheader (''Distribution of '' @ selected_metric @ '' Across Selected Countries'')], None)
       (if selected_metric \<notin> set (columns d) then ([], Some (KeyError selected_metric))
        else if ''Country'' \<notin> set (columns d) then ([], Some (ValueError ''Country''))
        else then_run
          ([St_plotly_chart (Px_box selected_metric (selected_metric @ '' Distribution'')
              (selected_metric @ '' ('' @ unit_of selected_metric @ '')'')),
            St_subheader (''Time Series of '' @ selected_metric)], None)
          (if ''Timestamp'' \<notin> set (columns d) then ([], Some (ValueError ''Timestamp''))
           else ([St_plotly_chart (Px_line selected_metric (selected_metric @ '' Over Time''))], None)))"

text \<open>Lines 52 to 87: what is drawn for a filtered frame that is not empty.\<close>

definition render_view :: "dataframe \<Rightarrow> string \<Rightarrow> run" where
  "render_view fd selected_metric =
     then_run ([St_sidebar_selectbox ''Select Metric for Analysis:'' metric_options], None)
       (then_run (plots_block fd selected_metric)
          (then_run (ranking_block fd) (cleaning_block fd)))"

text \<open>
  Lines 38 to 92, for the loaded frame and the two choices the user makes in the sidebar.
\<close>

definition dashboard :: "dataframe \<Rightarrow> cell list \<Rightarrow> string \<Rightarrow> run" where
  "dashboard df_combined selected_countries selected_metric =
     (if \<not> df_empty df_combined then
        then_run ([St_sidebar_header ''Filter Options''], None)
          (case all_countries df_combined of
             Inl err \<Rightarrow> ([], Some err)
           | Inr cs \<Rightarrow>
               then_run ([St_sidebar_multiselect ''Select Countries:'' cs cs], None)
                 (case filtered_df df_combined selected_countries of
                    Inl err \<Rightarrow> ([], Some err)
                  | Inr fd \<Rightarrow>
                      if \<not> df_empty fd then render_view fd selected_metric
                      else ([St_info ''Please select at least one country to view data.''], None)))
      else ([St_warning (''No data loaded. Please ensure the EDA notebooks were run successfully ''
              @ ''and cleaned CSVs are in the '' @ [CHR 0x27] @ ''data/'' @ [CHR 0x27] @ '' directory.'')], None))"

definition main :: "env \<Rightarrow> cell list \<Rightarrow> string \<Rightarrow> run" where
  "main e selected_countries selected_metric =
     then_run ([St_set_page_config ''wide'', St_title ''Cross-Country Solar Farm Analysis Dashboard''], None)
       (case load_all_cleaned_data e of
          (calls, Inl err) \<Rightarrow> (calls, Some err)
        | (calls, Inr df_combined) \<Rightarrow>
            then_run (calls, None) (dashboard df_combined selected_countries selected_metric))"

text \<open>The tables a run hands to \<^verbatim>\<open>st.dataframe\<close>, in order.\<close>

fun shown_tables :: "st_call list \<Rightarrow> (cell \<times> real option) list list" where
  "shown_tables [] = []"
| "shown_tables (St_dataframe header body # calls) = body # shown_tables calls"
| "shown_tables (_ # calls) = shown_tables calls"

section \<open>The order of a ranking\<close>

text \<open>
  A ranking is in descending order of mean when, in every pair of neighbours, the second
  entry has no mean (its mean is NaN), or both have one and the first is at least the second.
\<close>

fun descending_by_mean :: "('k \<times> real option) list \<Rightarrow> bool" where
  "descending_by_mean [] = True"
| "descending_by_mean [p] = True"
| "descending_by_mean (p # q # r) =
     ((case snd q of None \<Rightarrow> True
       | Some b \<Rightarrow> (case snd p of None \<Rightarrow> False | Some a \<Rightarrow> a \<ge> b))
      \<and> descending_by_mean (q # r))"

section \<open>Sample inputs\<close>

text \<open>
  Three small cleaned files, used to run the definitions on concrete data. An observation
  has a timestamp, two irradiance readings, the cleaning flag and the two module readings.
\<close>

definition obs :: "string \<Rightarrow> real \<Rightarrow> real \<Rightarrow> real \<Rightarrow> real \<Rightarrow> real \<Rightarrow> row" where
  "obs ts ghi dni cleaning modA modB =
     [''Timestamp'' \<mapsto> Str ts, ''GHI'' \<mapsto> Num ghi, ''DNI'' \<mapsto> Num dni,
      ''Cleaning'' \<mapsto> Num cleaning, ''ModA'' \<mapsto> Num modA, ''ModB'' \<mapsto> Num modB]"

definition sample_table :: "string \<Rightarrow> dataframe" where
  "sample_table filename =
     \<lparr>columns = [''Timestamp'', ''GHI'', ''DNI'', ''Cleaning'', ''ModA'', ''ModB''],
      rows = (if filename = ''benin_clean.csv'' then [obs ''2023-01-01 00:00'' 500 100 0 20 30]
              else if filename = ''sierra_leone_clean.csv''
                then [obs ''2023-01-01 00:00'' 300 700 0 10 12,
                      obs ''2023-01-01 00:01'' 100 900 1 30 36]
              else if filename = ''togo_clean.csv'' then [obs ''2023-01-01 00:00'' 400 200 0 40 44]
              else [])\<rparr>"

text \<open>The same files, but the second observation of Sierra Leone has a garbled timestamp.\<close>

definition garbled_table :: "string \<Rightarrow> dataframe" where
  "garbled_table filename =
     (if filename = ''sierra_leone_clean.csv''
      then \<lparr>columns = [''Timestamp'', ''GHI'', ''DNI'', ''Cleaning'', ''ModA'', ''ModB''],
            rows = [obs ''2023-01-01 00:00'' 300 700 0 10 12,
                    obs ''not a date'' 100 900 1 30 36]\<rparr>
      else sample_table filename)"

text \<open>A date parser that knows two minutes, as seconds after the first one.\<close>

definition sample_to_datetime :: "string \<Rightarrow> real option" where
  "sample_to_datetime s =
     (if s = ''2023-01-01 00:00'' then Some 0
      else if s = ''2023-01-01 00:01'' then Some 60
      else None)"

text \<open>
  The environment in which exactly the listed files exist under \<^verbatim>\<open>../data/\<close>, with the
  given text tables.
\<close>

definition sample_env :: "string list \<Rightarrow> (string \<Rightarrow> dataframe) \<Rightarrow> env" where
  "sample_env present tables =
     \<lparr>path_exists = (\<lambda>p. p \<in> set (map (path_join base_path) present)),
      read_table = (\<lambda>p. if p = ''../data/benin_clean.csv'' then Inr (tables ''benin_clean.csv'')
                    else if p = ''../data/sierra_leone_clean.csv''
                      then Inr (tables ''sierra_leone_clean.csv'')
                    else if p = ''../data/togo_clean.csv'' then Inr (tables ''togo_clean.csv'')
                    else Inl (ReadError p)),
      to_datetime = sample_to_datetime\<rparr>"

text \<open>The frame loaded when all three files are present.\<close>

definition sample_frame :: dataframe where
  "sample_frame =
     (case snd (load_all_cleaned_data (sample_env (map snd country_files) sample_table)) of
        Inr d \<Rightarrow> d | Inl err \<Rightarrow> DataFrame_empty)"

text \<open>The view of Benin and Togo, where no cleaning event was recorded.\<close>

definition never_cleaned :: dataframe where
  "never_cleaned =
     (case filtered_df sample_frame [Str ''Benin'', Str ''Togo''] of
        Inr fd \<Rightarrow> fd | Inl err \<Rightarrow> DataFrame_empty)"

text \<open>A tagged frame read from a file that has no \<^verbatim>\<open>Cleaning\<close> column.\<close>

definition togo_without_cleaning :: dataframe where
  "togo_without_cleaning =
     set_column ''Country'' (Str ''Togo'')
       \<lparr>columns = [''Timestamp'', ''GHI''],
        rows = [[''Timestamp'' \<mapsto> Num 0, ''GHI'' \<mapsto> Num 400],
                [''Timestamp'' \<mapsto> Num 60, ''GHI'' \<mapsto> Num 420]]\<rparr>"

lemmas sample_defs = sample_env_def sample_table_def garbled_table_def obs_def
  sample_to_datetime_def country_files_def base_path_def path_join_def read_csv_def
  parse_dates_def cell_at_def

lemmas frame_defs = sample_frame_def load_all_cleaned_data_def load_from_def sample_defs
  set_column_def pd_concat_def unique_def reindex_def

lemmas ranking_defs = avg_ghi_ranking_def mean_ranking_def groupby_mean_def numeric_def
  group_keys_def group_mean_def mean_def sort_values_desc_def

section \<open>Facts about loading\<close>

lemma rows_pd_concat:
  "rows (pd_concat dfs) =
     concat (map (\<lambda>d. map (reindex (unique (concat (map columns dfs)))) (rows d)) dfs)"
  by (simp add: pd_concat_def Let_def)

lemma length_rows_pd_concat:
  "length (rows (pd_concat dfs)) = sum_list (map (\<lambda>d. length (rows d)) dfs)"
  by (simp add: rows_pd_concat length_concat comp_def)

lemma set_unique [simp]: "set (unique xs) = set xs"
  by (simp add: unique_def)

lemma distinct_unique [simp]: "distinct (unique xs)"
  by (simp add: unique_def)

lemma cell_at_reindex:
  "c \<in> set cols \<Longrightarrow> cell_at (reindex cols r) c = cell_at r c"
  by (simp add: reindex_def cell_at_def)

lemma country_column_pd_concat:
  assumes "\<forall>d \<in> set dfs. ''Country'' \<in> set (columns d)"
  shows "map (\<lambda>r. cell_at r ''Country'') (rows (pd_concat dfs)) =
           concat (map (\<lambda>d. map (\<lambda>r. cell_at r ''Country'') (rows d)) dfs)"
proof -
  let ?cols = "unique (concat (map columns dfs))"
  have "\<And>d. d \<in> set dfs \<Longrightarrow> ''Country'' \<in> set ?cols"
    using assms by auto
  then have "\<And>d. d \<in> set dfs \<Longrightarrow>
      map (\<lambda>r. cell_at r ''Country'') (map (reindex ?cols) (rows d)) =
      map (\<lambda>r. cell_at r ''Country'') (rows d)"
    by (simp add: cell_at_reindex)
  then show ?thesis
    by (simp add: rows_pd_concat map_concat comp_def cong: map_cong)
qed

lemma load_loop_all_read:
  assumes "\<forall>(c, f) \<in> set files. path_exists e (path_join base_path f)
             \<and> read_csv e (path_join base_path f) = Inr (tbl f)"
  shows "load_loop e files acc =
           ([], Inr (let all_dfs = acc @ map (\<lambda>(c, f). set_column ''Country'' (Str c) (tbl f)) files
                     in if all_dfs \<noteq> [] then pd_concat all_dfs else DataFrame_empty))"
  using assms
proof (induction files arbitrary: acc)
  case Nil
  then show ?case by simp
next
  case (Cons cf files)
  obtain c f where cf: "cf = (c, f)" by (cases cf)
  from Cons.prems cf have here: "path_exists e (path_join base_path f)"
      "read_csv e (path_join base_path f) = Inr (tbl f)"
    and rest: "\<forall>(c, f) \<in> set files. path_exists e (path_join base_path f)
             \<and> read_csv e (path_join base_path f) = Inr (tbl f)"
    by auto
  show ?case
    using Cons.IH [OF rest, of "acc @ [set_column ''Country'' (Str c) (tbl f)]"] here
    by (simp add: cf Let_def)
qed

lemma load_loop_first_missing:
  assumes "\<forall>(c, f) \<in> set before. path_exists e (path_join base_path f)
             \<and> (\<exists>t. read_csv e (path_join base_path f) = Inr t)"
    and "\<not> path_exists e (path_join base_path filename)"
  shows "load_loop e (before @ (country, filename) # after) acc =
           ([St_error (not_found_message country (path_join base_path filename))],
            Inr DataFrame_empty)"
  using assms
proof (induction before arbitrary: acc)
  case Nil
  then show ?case by (simp add: Let_def)
next
  case (Cons cf before)
  obtain c f where cf: "cf = (c, f)" by (cases cf)
  from Cons.prems(1) cf obtain t where here: "path_exists e (path_join base_path f)"
      "read_csv e (path_join base_path f) = Inr t"
    by auto
  from Cons.prems(1) have rest: "\<forall>(c, f) \<in> set before. path_exists e (path_join base_path f)
             \<and> (\<exists>t. read_csv e (path_join base_path f) = Inr t)"
    by simp
  show ?case
    using Cons.IH [OF rest Cons.prems(2)] here by (simp add: cf Let_def)
qed

lemma load_loop_some_missing:
  assumes "(country, filename) \<in> set files"
    and "\<not> path_exists e (path_join base_path filename)"
  shows "case snd (load_loop e files acc) of
           Inr d \<Rightarrow> d = DataFrame_empty
         | Inl err \<Rightarrow> \<exists>(c, f) \<in> set files. path_exists e (path_join base_path f)
               \<and> read_csv e (path_join base_path f) = Inl err"
  using assms
proof (induction files arbitrary: acc)
  case Nil
  then show ?case by simp
next
  case (Cons cf files)
  obtain c f where cf: "cf = (c, f)" by (cases cf)
  show ?case
  proof (cases "path_exists e (path_join base_path f)")
    case False
    then show ?thesis by (simp add: cf Let_def)
  next
    case True
    with Cons.prems cf have later: "(country, filename) \<in> set files" by auto
    show ?thesis
    proof (cases "read_csv e (path_join base_path f)")
      case (Inl err)
      with True show ?thesis by (simp add: cf Let_def)
    next
      case (Inr df)
      from Cons.IH [OF later Cons.prems(2), of "acc @ [set_column ''Country'' (Str c) df]"]
      show ?thesis using True Inr
        by (auto simp: cf Let_def split: sum.splits)
    qed
  qed
qed


text \<open>A loaded frame that is not empty has the \<^verbatim>\<open>Country\<close> column.\<close>

lemma load_loop_has_country:
  assumes "\<forall>d \<in> set acc. ''Country'' \<in> set (columns d)"
    and "snd (load_loop e files acc) = Inr d" and "\<not> df_empty d"
  shows "''Country'' \<in> set (columns d)"
  using assms
proof (induction files arbitrary: acc)
  case Nil
  then show ?case
    by (cases acc) (auto simp: df_empty_def DataFrame_empty_def pd_concat_def Let_def)
next
  case (Cons cf files)
  obtain c f where cf: "cf = (c, f)" by (cases cf)
  show ?case
  proof (cases "path_exists e (path_join base_path f)")
    case False
    with Cons.prems show ?thesis
      by (auto simp: cf Let_def df_empty_def DataFrame_empty_def)
  next
    case True
    show ?thesis
    proof (cases "read_csv e (path_join base_path f)")
      case (Inl err)
      with True Cons.prems show ?thesis by (simp add: cf Let_def)
    next
      case (Inr df)
      have acc': "\<forall>d \<in> set (acc @ [set_column ''Country'' (Str c) df]). ''Country'' \<in> set (columns d)"
        using Cons.prems(1) by (auto simp: set_column_def)
      from Cons.prems(2) True Inr
      have "snd (load_loop e files (acc @ [set_column ''Country'' (Str c) df])) = Inr d"
        by (simp add: cf Let_def)
      from Cons.IH [OF acc' this Cons.prems(3)] show ?thesis .
    qed
  qed
qed

lemma loaded_frame_has_country:
  "snd (load_from e files) = Inr d \<Longrightarrow> \<not> df_empty d \<Longrightarrow> ''Country'' \<in> set (columns d)"
  using load_loop_has_country [of "[]" e files d] by (simp add: load_from_def)

text \<open>Reading keeps the columns and the number of rows of the table.\<close>

lemma parse_dates_shape:
  assumes "c \<in> set (columns df)"
  shows "\<exists>df'. parse_dates conv c df = Inr df' \<and> columns df' = columns df
           \<and> length (rows df') = length (rows df)"
  using assms by (simp add: parse_dates_def)

lemma read_csv_shape:
  assumes "read_table e path = Inr raw" and "''Timestamp'' \<in> set (columns raw)"
  shows "\<exists>df. read_csv e path = Inr df \<and> columns df = columns raw
           \<and> length (rows df) = length (rows raw)"
  using assms parse_dates_shape [of "''Timestamp''" raw "to_datetime e"]
  by (simp add: read_csv_def)

lemma load_from_all_read:
  assumes "\<forall>(country, filename) \<in> set files.
             path_exists e (path_join base_path filename)
             \<and> read_csv e (path_join base_path filename) = Inr (tbl filename)"
  shows "\<exists>d. load_from e files = ([], Inr d)
           \<and> length (rows d) = sum_list (map (\<lambda>(country, filename). length (rows (tbl filename))) files)
           \<and> map (\<lambda>r. cell_at r ''Country'') (rows d) =
               concat (map (\<lambda>(country, filename).
                  replicate (length (rows (tbl filename))) (Str country)) files)"
proof -
  let ?tagged = "map (\<lambda>(c, f). set_column ''Country'' (Str c) (tbl f)) files"
  let ?d = "if ?tagged \<noteq> [] then pd_concat ?tagged else DataFrame_empty"
  have loaded: "load_from e files = ([], Inr ?d)"
    using load_loop_all_read [OF assms, of "[]"] by (simp add: load_from_def Let_def)
  have tagged_country: "\<forall>d \<in> set ?tagged. ''Country'' \<in> set (columns d)"
    by (auto simp: set_column_def)
  have size: "length (rows ?d) = sum_list (map (\<lambda>(c, f). length (rows (tbl f))) files)"
  proof (cases "files = []")
    case True
    then show ?thesis by (simp add: DataFrame_empty_def)
  next
    case False
    then show ?thesis
      by (simp add: length_rows_pd_concat comp_def case_prod_unfold set_column_def)
  qed
  have tags: "map (\<lambda>r. cell_at r ''Country'') (rows ?d) =
      concat (map (\<lambda>(c, f). replicate (length (rows (tbl f))) (Str c)) files)"
  proof (cases "files = []")
    case True
    then show ?thesis by (simp add: DataFrame_empty_def)
  next
    case False
    then show ?thesis
      using country_column_pd_concat [OF tagged_country]
      by (simp add: set_column_def cell_at_def comp_def map_replicate_const case_prod_unfold)
  qed
  from loaded size tags show ?thesis by blast
qed

section \<open>Claims about loading\<close>

text \<open>
  C3. When every configured file exists and pandas reads its text into a table with a
  \<^verbatim>\<open>Timestamp\<close> column, the load returns a frame, without any message, whose number of
  rows is the sum of the row counts of the files, and whose \<^verbatim>\<open>Country\<close> column holds,
  file after file in the configured order, the country configured for the file each row
  came from.
\<close>

theorem load_size_and_country_tags:
  assumes "\<forall>(country, filename) \<in> set files.
             path_exists e (path_join base_path filename)
             \<and> read_table e (path_join base_path filename) = Inr (raw filename)
             \<and> ''Timestamp'' \<in> set (columns (raw filename))"
  shows "\<exists>d. load_from e files = ([], Inr d)
           \<and> length (rows d) = sum_list (map (\<lambda>(country, filename). length (rows (raw filename))) files)
           \<and> map (\<lambda>r. cell_at r ''Country'') (rows d) =
               concat (map (\<lambda>(country, filename).
                  replicate (length (rows (raw filename))) (Str country)) files)"
proof -
  let ?tbl = "\<lambda>filename. case read_csv e (path_join base_path filename) of
                 Inr t \<Rightarrow> t | Inl err \<Rightarrow> DataFrame_empty"
  have each: "path_exists e (path_join base_path f)
      \<and> read_csv e (path_join base_path f) = Inr (?tbl f)
      \<and> length (rows (?tbl f)) = length (rows (raw f))" if "(c, f) \<in> set files" for c f
  proof -
    from assms that have ex: "path_exists e (path_join base_path f)"
      and tab: "read_table e (path_join base_path f) = Inr (raw f)"
      and col: "''Timestamp'' \<in> set (columns (raw f))"
      by auto
    from read_csv_shape [OF tab col] ex show ?thesis by auto
  qed
  then have read: "\<forall>(country, filename) \<in> set files.
             path_exists e (path_join base_path filename)
             \<and> read_csv e (path_join base_path filename) = Inr (?tbl filename)"
    by auto
  have sizes: "map (\<lambda>(country, filename). length (rows (?tbl filename))) files =
      map (\<lambda>(country, filename). length (rows (raw filename))) files"
    using each by (auto simp del: split_paired_All)
  have tags: "map (\<lambda>(country, filename). replicate (length (rows (?tbl filename))) (Str country)) files =
      map (\<lambda>(country, filename). replicate (length (rows (raw filename))) (Str country)) files"
    using each by (auto simp del: split_paired_All)
  from load_from_all_read [OF read] show ?thesis
    unfolding sizes tags .
qed

text \<open>The three sample files hold one, two and one observation.\<close>

theorem load_size_and_country_tags_witness:
  "\<exists>d. load_all_cleaned_data (sample_env (map snd country_files) sample_table) = ([], Inr d)
     \<and> length (rows d) = 4
     \<and> map (\<lambda>r. cell_at r ''Country'') (rows d) =
         [Str ''Benin'', Str ''Sierra Leone'', Str ''Sierra Leone'', Str ''Togo'']"
proof -
  let ?e = "sample_env (map snd country_files) sample_table"
  have present: "\<forall>(country, filename) \<in> set country_files.
      path_exists ?e (path_join base_path filename)
      \<and> read_table ?e (path_join base_path filename) = Inr (sample_table filename)
      \<and> ''Timestamp'' \<in> set (columns (sample_table filename))"
    by (simp add: sample_defs)
  show ?thesis
    using load_size_and_country_tags [OF present]
    by (simp add: load_all_cleaned_data_def sample_table_def country_files_def eval_nat_numeral)
qed

text \<open>
  C1 as stated does not hold: with the file of Sierra Leone missing, the load does not fail.
  It returns the empty frame normally, after one call to \<^verbatim>\<open>st.error\<close>.
\<close>

theorem load_missing_file_returns_empty_frame:
  "\<not> path_exists (sample_env [''benin_clean.csv'', ''togo_clean.csv''] sample_table)
        ''../data/sierra_leone_clean.csv''
   \<and> load_all_cleaned_data (sample_env [''benin_clean.csv'', ''togo_clean.csv''] sample_table) =
       ([St_error (''Error: Cleaned data file not found for Sierra Leone at ''
            @ ''../data/sierra_leone_clean.csv. Please run EDA notebooks first.'')],
        Inr DataFrame_empty)"
  by (simp add: load_all_cleaned_data_def load_from_def not_found_message_def sample_defs)

text \<open>
  C1, amended. When some configured file does not exist, and the files configured before
  the first missing one are read without an exception, the load reports through
  \<^verbatim>\<open>st.error\<close> one message that names the country and the path of that first missing
  file, and returns the empty frame normally: no exception is raised.
\<close>

theorem load_reports_first_missing_file:
  assumes "files = before @ (country, filename) # after"
    and "\<forall>(c, f) \<in> set before. path_exists e (path_join base_path f)
           \<and> (\<exists>t. read_csv e (path_join base_path f) = Inr t)"
    and "\<not> path_exists e (path_join base_path filename)"
  shows "load_from e files =
           ([St_error (not_found_message country (path_join base_path filename))],
            Inr DataFrame_empty)"
  using load_loop_first_missing [OF assms(2) assms(3)] assms(1)
  by (simp add: load_from_def)

theorem load_reports_first_missing_file_witness:
  "load_all_cleaned_data (sample_env [''benin_clean.csv'', ''togo_clean.csv''] sample_table) =
     ([St_error (not_found_message ''Sierra Leone'' ''../data/sierra_leone_clean.csv'')],
      Inr DataFrame_empty)"
proof -
  let ?e = "sample_env [''benin_clean.csv'', ''togo_clean.csv''] sample_table"
  have split: "country_files = [(''Benin'', ''benin_clean.csv'')]
      @ (''Sierra Leone'', ''sierra_leone_clean.csv'') # [(''Togo'', ''togo_clean.csv'')]"
    by (simp add: country_files_def)
  have before: "\<forall>(c, f) \<in> set [(''Benin'', ''benin_clean.csv'')].
      path_exists ?e (path_join base_path f) \<and> (\<exists>t. read_csv ?e (path_join base_path f) = Inr t)"
    by (simp add: sample_defs)
  have missing: "\<not> path_exists ?e (path_join base_path ''sierra_leone_clean.csv'')"
    by (simp add: sample_defs)
  show ?thesis
    using load_reports_first_missing_file [OF split before missing]
    by (simp add: load_all_cleaned_data_def path_join_def base_path_def)
qed

text \<open>
  C5. When some configured file is missing, the frame the load returns is the empty one:
  it has no rows, whatever the files that do exist hold. The only other outcome is an
  exception raised by reading one of the existing files, which returns no frame at all.
\<close>

theorem load_returns_nothing_partial:
  assumes "(country, filename) \<in> set files"
    and "\<not> path_exists e (path_join base_path filename)"
  shows "case snd (load_from e files) of
           Inr d \<Rightarrow> d = DataFrame_empty \<and> rows d = [] \<and> df_empty d
         | Inl err \<Rightarrow> \<exists>(c, f) \<in> set files. path_exists e (path_join base_path f)
               \<and> read_csv e (path_join base_path f) = Inl err"
  using load_loop_some_missing [OF assms, of "[]"]
  by (auto simp: load_from_def DataFrame_empty_def df_empty_def split: sum.splits)

theorem load_returns_nothing_partial_witness:
  "(''Togo'', ''togo_clean.csv'') \<in> set country_files
   \<and> \<not> path_exists (sample_env [''benin_clean.csv'', ''sierra_leone_clean.csv''] sample_table)
          (path_join base_path ''togo_clean.csv'')
   \<and> snd (load_all_cleaned_data (sample_env [''benin_clean.csv'', ''sierra_leone_clean.csv''] sample_table))
       = Inr DataFrame_empty"
proof -
  let ?e = "sample_env [''benin_clean.csv'', ''sierra_leone_clean.csv''] sample_table"
  have listed: "(''Togo'', ''togo_clean.csv'') \<in> set country_files"
    by (simp add: country_files_def)
  have missing: "\<not> path_exists ?e (path_join base_path ''togo_clean.csv'')"
    by (simp add: sample_defs)
  have returns: "\<exists>d. snd (load_from ?e country_files) = Inr d"
    by (simp add: load_from_def sample_defs)
  show ?thesis
    using load_returns_nothing_partial [OF listed missing] listed missing returns
    by (auto simp: load_all_cleaned_data_def split: sum.splits)
qed

section \<open>Claims about parsing\<close>

text \<open>
  C4 as stated does not hold: the file of Sierra Leone has an observation whose timestamp
  is the text \<^verbatim>\<open>not a date\<close>, which the date parser rejects. Reading the file raises
  nothing and returns the table as it is; the load returns normally, without a message, and
  the loaded frame holds the row with its timestamp as text.
\<close>

theorem garbled_timestamp_is_loaded:
  "to_datetime (sample_env (map snd country_files) garbled_table) ''not a date'' = None
   \<and> read_csv (sample_env (map snd country_files) garbled_table) ''../data/sierra_leone_clean.csv''
       = Inr (garbled_table ''sierra_leone_clean.csv'')
   \<and> fst (load_all_cleaned_data (sample_env (map snd country_files) garbled_table)) = []
   \<and> \<not> isl (snd (load_all_cleaned_data (sample_env (map snd country_files) garbled_table)))
   \<and> column (projr (snd (load_all_cleaned_data (sample_env (map snd country_files) garbled_table))))
         ''Timestamp''
       = Inr [Num 0, Str ''2023-01-01 00:00'', Str ''not a date'', Num 0]"
  by (simp add: column_def load_all_cleaned_data_def load_from_def sample_defs
      set_column_def pd_concat_def unique_def reindex_def)

text \<open>
  C4, amended. For every input file that contains a row whose timestamp cannot be parsed
  as a date-time, the parse step raises no error and drops no row: it returns the table of
  the file unaltered, every row kept and the \<^verbatim>\<open>Timestamp\<close> column left as text.
\<close>

theorem read_csv_keeps_unparsed_timestamp:
  assumes "read_table e path = Inr raw" and "''Timestamp'' \<in> set (columns raw)"
    and "r \<in> set (rows raw)" and "cell_at r ''Timestamp'' = Str s" and "to_datetime e s = None"
  shows "read_csv e path = Inr raw"
proof -
  from assms(4,5) have "convert_cell (to_datetime e) (cell_at r ''Timestamp'') = None"
    by simp
  with assms(3)
  have "\<not> list_all (\<lambda>r. convert_cell (to_datetime e) (cell_at r ''Timestamp'') \<noteq> None) (rows raw)"
    unfolding list_all_iff by blast
  with assms(1,2) show ?thesis
    by (simp add: read_csv_def parse_dates_def)
qed

theorem read_csv_keeps_unparsed_timestamp_witness:
  "read_csv (sample_env (map snd country_files) garbled_table) ''../data/sierra_leone_clean.csv''
     = Inr (garbled_table ''sierra_leone_clean.csv'')
   \<and> obs ''not a date'' 100 900 1 30 36 \<in> set (rows (garbled_table ''sierra_leone_clean.csv''))"
proof -
  let ?e = "sample_env (map snd country_files) garbled_table"
  let ?raw = "garbled_table ''sierra_leone_clean.csv''"
  have table: "read_table ?e ''../data/sierra_leone_clean.csv'' = Inr ?raw"
    by (simp add: sample_env_def)
  have col: "''Timestamp'' \<in> set (columns ?raw)"
    by (simp add: garbled_table_def)
  have row: "obs ''not a date'' 100 900 1 30 36 \<in> set (rows ?raw)"
    by (simp add: garbled_table_def)
  have stamp: "cell_at (obs ''not a date'' 100 900 1 30 36) ''Timestamp'' = Str ''not a date''"
    by (simp add: obs_def cell_at_def)
  have bad: "to_datetime ?e ''not a date'' = None"
    by (simp add: sample_env_def sample_to_datetime_def)
  show ?thesis
    using read_csv_keeps_unparsed_timestamp [OF table col row stamp bad] row by simp
qed


section \<open>Claims about filtering\<close>

lemma sample_columns: "columns sample_frame = [''Timestamp'', ''GHI'', ''DNI'', ''Cleaning'', ''ModA'', ''ModB'', ''Country'']"
  by (simp add: frame_defs)

lemma then_run_None [simp]: "then_run (xs, None) b = (xs @ fst b, snd b)"
  by (cases b) (simp add: then_run_def)

lemma then_run_Some [simp]: "then_run (xs, Some err) b = (xs, Some err)"
  by (simp add: then_run_def)

text \<open>
  C7. With nothing selected, the filtered frame has no rows, whatever the loaded frame
  (any frame with a \<^verbatim>\<open>Country\<close> column, as every loaded frame that is not empty has)
  holds. For a loaded frame that is not empty the page then shows the sidebar and one
  \<^verbatim>\<open>st.info\<close> message; no exception ends the run and no error is displayed.
\<close>

theorem empty_selection_is_neutral:
  assumes "''Country'' \<in> set (columns d)"
  shows "\<exists>fd cs. filtered_df d [] = Inr fd \<and> rows fd = [] \<and> df_empty fd
           \<and> all_countries d = Inr cs
           \<and> (\<not> df_empty d \<longrightarrow> dashboard d [] selected_metric =
                 ([St_sidebar_header ''Filter Options'',
                   St_sidebar_multiselect ''Select Countries:'' cs cs,
                   St_info ''Please select at least one country to view data.''], None))"
  using assms
  by (simp add: filtered_df_def all_countries_def column_def dashboard_def df_empty_def)

theorem empty_selection_is_neutral_witness:
  "\<not> df_empty sample_frame
   \<and> dashboard sample_frame [] ''GHI'' =
       ([St_sidebar_header ''Filter Options'',
         St_sidebar_multiselect ''Select Countries:''
           [Str ''Benin'', Str ''Sierra Leone'', Str ''Togo'']
           [Str ''Benin'', Str ''Sierra Leone'', Str ''Togo''],
         St_info ''Please select at least one country to view data.''], None)"
proof -
  have country: "''Country'' \<in> set (columns sample_frame)"
    by (simp add: sample_columns)
  have nonempty: "\<not> df_empty sample_frame"
    by (simp add: df_empty_def frame_defs)
  have cs: "all_countries sample_frame = Inr [Str ''Benin'', Str ''Sierra Leone'', Str ''Togo'']"
    by (simp add: all_countries_def column_def frame_defs)
  show ?thesis
    using empty_selection_is_neutral [OF country, of "''GHI''"] nonempty cs by auto
qed

text \<open>
  C9. Selecting every country that occurs in the loaded frame (any frame with a
  \<^verbatim>\<open>Country\<close> column) keeps every row: the filtered frame has the size of the loaded
  frame, and is that frame.
\<close>

theorem selecting_all_countries_keeps_every_row:
  assumes "''Country'' \<in> set (columns d)"
  shows "\<exists>cs fd. all_countries d = Inr cs \<and> filtered_df d cs = Inr fd
           \<and> length (rows fd) = length (rows d) \<and> fd = d"
  using assms
  by (simp add: filtered_df_def all_countries_def column_def)

theorem selecting_all_countries_keeps_every_row_witness:
  "all_countries sample_frame = Inr [Str ''Benin'', Str ''Sierra Leone'', Str ''Togo'']
   \<and> (\<exists>fd. filtered_df sample_frame [Str ''Benin'', Str ''Sierra Leone'', Str ''Togo''] = Inr fd
         \<and> length (rows fd) = 4)"
proof -
  have country: "''Country'' \<in> set (columns sample_frame)"
    by (simp add: sample_columns)
  have cs: "all_countries sample_frame = Inr [Str ''Benin'', Str ''Sierra Leone'', Str ''Togo'']"
    by (simp add: all_countries_def column_def frame_defs)
  have size: "length (rows sample_frame) = 4"
    by (simp add: frame_defs)
  show ?thesis
    using selecting_all_countries_keeps_every_row [OF country] cs size by auto
qed

section \<open>Facts about sorting and grouping\<close>

lemma mset_non_nans:
  "mset (map (\<lambda>(k, x). (k, Some x)) (non_nans s)) + mset (filter (\<lambda>p. snd p = None) s) = mset s"
  by (induction s rule: non_nans.induct) auto

lemma mset_sort_values_desc: "mset (sort_values_desc s) = mset s"
proof -
  have "mset (sort_values_desc s) =
      mset (map (\<lambda>(k, x). (k, Some x)) (non_nans s)) + mset (filter (\<lambda>p. snd p = None) s)"
    by (simp add: sort_values_desc_def)
  then show ?thesis by (simp only: mset_non_nans)
qed

lemma set_sort_values_desc: "set (sort_values_desc s) = set s"
  by (metis mset_sort_values_desc set_mset_mset)

lemma distinct_keys_sort_values_desc:
  "distinct (map fst (sort_values_desc s)) = distinct (map fst s)"
proof -
  have "mset (map fst (sort_values_desc s)) = mset (map fst s)"
    by (metis mset_map mset_sort_values_desc)
  then show ?thesis by (rule mset_eq_imp_distinct_iff)
qed

lemma descending_nans: "\<forall>p \<in> set s. snd p = None \<Longrightarrow> descending_by_mean s"
  by (induction s rule: descending_by_mean.induct) auto

lemma descending_append_nans:
  assumes "sorted_wrt (\<ge>) (map snd xs)" and "\<forall>p \<in> set s. snd p = None"
  shows "descending_by_mean (map (\<lambda>(k, x). (k, Some x)) xs @ s)"
  using assms
proof (induction xs)
  case Nil
  then show ?case by (simp add: descending_nans)
next
  case (Cons x xs)
  obtain k a where x: "x = (k, a)" by (cases x)
  show ?case
  proof (cases xs)
    case Nil
    with Cons.prems x show ?thesis
      by (cases s) (auto simp: descending_nans)
  next
    case (Cons y ys)
    obtain k' b where y: "y = (k', b)" by (cases y)
    from Cons.IH Cons.prems have "descending_by_mean (map (\<lambda>(k, x). (k, Some x)) xs @ s)" by simp
    with Cons.prems(1) Cons x y show ?thesis by simp
  qed
qed

lemma descending_sort_values_desc: "descending_by_mean (sort_values_desc s)"
proof -
  have "sorted (map snd (sort_key snd (rev (non_nans s))))"
    by (rule sorted_sort_key)
  then have "sorted_wrt (\<ge>) (map snd (rev (sort_key snd (rev (non_nans s)))))"
    by (simp add: rev_map [symmetric] sorted_wrt_rev)
  then show ?thesis
    unfolding sort_values_desc_def by (rule descending_append_nans) simp
qed

lemma descending_adjacent:
  "descending_by_mean r \<Longrightarrow> Suc i < length r \<Longrightarrow>
     (case snd (r ! Suc i) of None \<Rightarrow> True
      | Some b \<Rightarrow> (\<exists>a. snd (r ! i) = Some a \<and> a \<ge> b))"
proof (induction r arbitrary: i rule: descending_by_mean.induct)
  case (3 p q r)
  show ?case
  proof (cases i)
    case 0
    with "3.prems" show ?thesis by (auto split: option.splits)
  next
    case (Suc j)
    from "3.prems" "3.IH" [of j] show ?thesis unfolding Suc by (auto split: option.splits)
  qed
qed simp_all


lemma set_group_keys: "set (group_keys d by) = set (map (\<lambda>r. cell_at r by) (rows d)) - {NaN}"
  by (auto simp: group_keys_def)

lemma distinct_group_keys: "distinct (group_keys d by)"
  by (simp add: group_keys_def)

lemma mean_ranking_Inr:
  assumes "''Country'' \<in> set (columns d)" and "col \<in> set (columns d)" and "numeric d col"
  shows "mean_ranking d col =
           Inr (sort_values_desc
                  (map (\<lambda>k. (k, group_mean d ''Country'' k col)) (group_keys d ''Country'')))"
  using assms by (simp add: mean_ranking_def groupby_mean_def)

lemma shown_tables_append: "shown_tables (xs @ ys) = shown_tables xs @ shown_tables ys"
  by (induction xs rule: shown_tables.induct) simp_all

lemma shown_tables_then_run:
  "set (shown_tables (fst (then_run a b))) \<subseteq> set (shown_tables (fst a)) \<union> set (shown_tables (fst b))"
  by (cases a; cases b) (auto simp: then_run_def shown_tables_append split: option.splits)

lemma shown_tables_plots_block: "shown_tables (fst (plots_block d m)) = []"
  by (simp add: plots_block_def shown_tables_append)

lemma shown_tables_cleaning_block: "shown_tables (fst (cleaning_block d)) = []"
  by (simp add: cleaning_block_def split: sum.splits option.splits)

lemma shown_tables_ranking_block:
  "r \<in> set (shown_tables (fst (ranking_block d))) \<Longrightarrow> avg_ghi_ranking d = Inr r"
  by (auto simp: ranking_block_def split: if_splits sum.splits)

lemma shown_tables_render_view:
  assumes "r \<in> set (shown_tables (fst (render_view d m)))"
  shows "avg_ghi_ranking d = Inr r"
proof -
  have "r \<in> set (shown_tables (fst (then_run (plots_block d m)
            (then_run (ranking_block d) (cleaning_block d)))))"
    using assms by (simp add: render_view_def shown_tables_append)
  then have "r \<in> set (shown_tables (fst (then_run (ranking_block d) (cleaning_block d))))"
    using shown_tables_then_run
      [of "plots_block d m" "then_run (ranking_block d) (cleaning_block d)"]
    by (simp add: shown_tables_plots_block subset_iff)
  then have "r \<in> set (shown_tables (fst (ranking_block d)))"
    using shown_tables_then_run [of "ranking_block d" "cleaning_block d"]
    by (simp add: shown_tables_cleaning_block subset_iff)
  then show ?thesis by (rule shown_tables_ranking_block)
qed

lemma sample_ranking:
  "avg_ghi_ranking sample_frame =
     Inr [(Str ''Benin'', Some 500), (Str ''Togo'', Some 400), (Str ''Sierra Leone'', Some 200)]"
  by (simp add: ranking_defs frame_defs)

section \<open>Claims about the ranking\<close>

text \<open>
  C2 as stated does not hold: with \<^verbatim>\<open>DNI\<close> selected on the three sample files, all
  countries selected, the table the page shows is the ranking by mean \<^verbatim>\<open>GHI\<close>, not the
  ranking by mean \<^verbatim>\<open>DNI\<close> of the same view.
\<close>

theorem ranking_ignores_selected_metric:
  "shown_tables (fst (main (sample_env (map snd country_files) sample_table)
       [Str ''Benin'', Str ''Sierra Leone'', Str ''Togo''] ''DNI'')) =
     [[(Str ''Benin'', Some 500), (Str ''Togo'', Some 400), (Str ''Sierra Leone'', Some 200)]]
   \<and> mean_ranking sample_frame ''DNI'' =
       Inr [(Str ''Sierra Leone'', Some 800), (Str ''Togo'', Some 200), (Str ''Benin'', Some 100)]"
  by (simp add: main_def dashboard_def render_view_def plots_block_def ranking_block_def
      cleaning_block_def cleaning_impact_df_def nunique_def pair_keys_def pair_at_def pair_mean_def
      all_countries_def column_def filtered_df_def df_empty_def
      ranking_defs frame_defs)

text \<open>
  C2, amended. For every filtered frame with the columns \<^verbatim>\<open>Country\<close>, \<^verbatim>\<open>Timestamp\<close>
  and a numeric \<^verbatim>\<open>GHI\<close>, and every selected metric that is a column of the frame, the
  one table shown is the ranking by \<^verbatim>\<open>GHI\<close>, whatever the metric: one entry per country
  present, each with the arithmetic mean of the \<^verbatim>\<open>GHI\<close> readings of that country's rows
  (NaN readings skipped, no mean when there is none), in descending order of mean.
\<close>

theorem ranking_is_mean_ghi_per_country:
  assumes "''Country'' \<in> set (columns d)" and "''GHI'' \<in> set (columns d)"
    and "numeric d ''GHI''"
    and "selected_metric \<in> set (columns d)" and "''Timestamp'' \<in> set (columns d)"
  shows "\<exists>r. avg_ghi_ranking d = Inr r
           \<and> shown_tables (fst (render_view d selected_metric)) = [r]
           \<and> distinct (map fst r)
           \<and> set (map fst r) = set (map (\<lambda>row. cell_at row ''Country'') (rows d)) - {NaN}
           \<and> (\<forall>(country, m) \<in> set r.
                 m = (let ghi = nums (map (\<lambda>row. cell_at row ''GHI'')
                                  (filter (\<lambda>row. cell_at row ''Country'' = country) (rows d)))
                      in if ghi = [] then None else Some (sum_list ghi / real (length ghi))))
           \<and> descending_by_mean r"
proof -
  let ?s = "map (\<lambda>k. (k, group_mean d ''Country'' k ''GHI'')) (group_keys d ''Country'')"
  let ?r = "sort_values_desc ?s"
  have ranking: "avg_ghi_ranking d = Inr ?r"
    using assms(1-3) by (simp add: avg_ghi_ranking_def mean_ranking_Inr)
  have keys: "map fst ?s = group_keys d ''Country''"
    by (simp add: comp_def)
  have shown: "shown_tables (fst (render_view d selected_metric)) = [?r]"
    using assms ranking
    by (simp add: render_view_def plots_block_def ranking_block_def shown_tables_append
        shown_tables_cleaning_block)
  have dist: "distinct (map fst ?r)"
    by (simp only: distinct_keys_sort_values_desc keys distinct_group_keys)
  have "set (map fst ?r) = set (map fst ?s)"
    by (simp only: set_map set_sort_values_desc)
  then have countries: "set (map fst ?r) = set (map (\<lambda>row. cell_at row ''Country'') (rows d)) - {NaN}"
    by (simp only: keys set_group_keys)
  have means: "\<forall>(country, m) \<in> set ?r.
      m = (let ghi = nums (map (\<lambda>row. cell_at row ''GHI'')
                       (filter (\<lambda>row. cell_at row ''Country'' = country) (rows d)))
           in if ghi = [] then None else Some (sum_list ghi / real (length ghi)))"
    by (auto simp: set_sort_values_desc group_mean_def mean_def)
  from ranking shown dist countries means descending_sort_values_desc [of ?s]
  show ?thesis by blast
qed

theorem ranking_is_mean_ghi_per_country_witness:
  "numeric sample_frame ''GHI''
   \<and> shown_tables (fst (render_view sample_frame ''DNI'')) =
       [[(Str ''Benin'', Some 500), (Str ''Togo'', Some 400), (Str ''Sierra Leone'', Some 200)]]"
proof -
  have country: "''Country'' \<in> set (columns sample_frame)"
    and ghi: "''GHI'' \<in> set (columns sample_frame)"
    and dni: "''DNI'' \<in> set (columns sample_frame)"
    and timestamp: "''Timestamp'' \<in> set (columns sample_frame)"
    by (simp_all add: sample_columns)
  have num: "numeric sample_frame ''GHI''"
    by (simp add: numeric_def frame_defs)
  show ?thesis
    using ranking_is_mean_ghi_per_country [OF country ghi num dni timestamp] sample_ranking num
    by auto
qed

text \<open>
  C8. The ranking the script computes, and so every table the page shows for any view and
  any selected metric, is in descending order of mean: in every pair of neighbours where
  the second entry has a mean, the first has one too and it is at least as large. Entries
  without a mean (no \<^verbatim>\<open>GHI\<close> reading in the group) come last.
\<close>

theorem ranking_sorted_descending:
  assumes "avg_ghi_ranking d = Inr r \<or> r \<in> set (shown_tables (fst (render_view d selected_metric)))"
    and "Suc i < length r"
  shows "case snd (r ! Suc i) of None \<Rightarrow> True
         | Some b \<Rightarrow> (\<exists>a. snd (r ! i) = Some a \<and> a \<ge> b)"
proof -
  from assms(1) have "avg_ghi_ranking d = Inr r"
    by (auto dest: shown_tables_render_view)
  then have "descending_by_mean r"
    by (auto simp: avg_ghi_ranking_def mean_ranking_def descending_sort_values_desc split: sum.splits)
  then show ?thesis using assms(2) by (rule descending_adjacent)
qed


theorem ranking_sorted_descending_witness:
  "avg_ghi_ranking sample_frame =
     Inr [(Str ''Benin'', Some 500), (Str ''Togo'', Some 400), (Str ''Sierra Leone'', Some 200)]
   \<and> (case snd ([(Str ''Benin'', Some 500), (Str ''Togo'', Some 400),
                 (Str ''Sierra Leone'', Some (200::real))] ! Suc 0) of
        None \<Rightarrow> True
      | Some b \<Rightarrow> (\<exists>a. snd ([(Str ''Benin'', Some 500), (Str ''Togo'', Some 400),
                 (Str ''Sierra Leone'', Some 200)] ! 0) = Some a \<and> a \<ge> b))"
proof -
  let ?r = "[(Str ''Benin'', Some 500), (Str ''Togo'', Some 400),
             (Str ''Sierra Leone'', Some (200::real))]"
  have ranking: "avg_ghi_ranking sample_frame = Inr ?r \<or>
      ?r \<in> set (shown_tables (fst (render_view sample_frame ''DNI'')))"
    by (simp add: sample_ranking)
  have inside: "Suc 0 < length ?r" by simp
  show ?thesis
    using ranking_sorted_descending [OF ranking inside] sample_ranking by simp
qed


section \<open>Claims about the cleaning impact\<close>

lemma nunique_card: "nunique vs = card (set vs - {NaN})"
proof -
  have "set (filter (\<lambda>v. v \<noteq> NaN) vs) = set vs - {NaN}" by auto
  then show ?thesis
    unfolding nunique_def by (metis card_set)
qed

lemma pair_keys_facts:
  "distinct (pair_keys d)"
  "set (pair_keys d) = set (map pair_at (rows d)) \<inter> {(c, k). c \<noteq> NaN \<and> k \<noteq> NaN}"
  by (auto simp: pair_keys_def)

text \<open>
  C6. A view with fewer than two distinct cleaning flags gives no cleaning-impact table:
  nothing is computed, nothing is drawn and no exception is raised. A view with more than
  one distinct flag, whose \<^verbatim>\<open>Country\<close>, \<^verbatim>\<open>ModA\<close> and \<^verbatim>\<open>ModB\<close> columns are present and
  the two module columns numeric, gives a table with one row per pair of country and flag
  that occurs, holding the arithmetic means of \<^verbatim>\<open>ModA\<close> and of \<^verbatim>\<open>ModB\<close> over the rows of
  that pair.
\<close>

theorem cleaning_impact_applicability:
  "(card (set (map (\<lambda>r. cell_at r ''Cleaning'') (rows d)) - {NaN}) < 2 \<longrightarrow>
      cleaning_impact_df d = Inr None \<and> cleaning_block d = ([], None))
   \<and> (''Cleaning'' \<in> set (columns d)
        \<and> 1 < card (set (map (\<lambda>r. cell_at r ''Cleaning'') (rows d)) - {NaN})
        \<and> ''Country'' \<in> set (columns d)
        \<and> ''ModA'' \<in> set (columns d) \<and> ''ModB'' \<in> set (columns d)
        \<and> numeric d ''ModA'' \<and> numeric d ''ModB'' \<longrightarrow>
      (\<exists>t. cleaning_impact_df d = Inr (Some t)
         \<and> distinct (map (\<lambda>x. (ir_country x, ir_cleaning x)) t)
         \<and> set (map (\<lambda>x. (ir_country x, ir_cleaning x)) t) =
             set (map (\<lambda>r. (cell_at r ''Country'', cell_at r ''Cleaning'')) (rows d))
               \<inter> {(c, k). c \<noteq> NaN \<and> k \<noteq> NaN}
         \<and> (\<forall>x \<in> set t.
               ir_ModA x =
                 (let a = nums (map (\<lambda>r. cell_at r ''ModA'')
                      (filter (\<lambda>r. cell_at r ''Country'' = ir_country x
                                  \<and> cell_at r ''Cleaning'' = ir_cleaning x) (rows d)))
                  in if a = [] then None else Some (sum_list a / real (length a)))
             \<and> ir_ModB x =
                 (let b = nums (map (\<lambda>r. cell_at r ''ModB'')
                      (filter (\<lambda>r. cell_at r ''Country'' = ir_country x
                                  \<and> cell_at r ''Cleaning'' = ir_cleaning x) (rows d)))
                  in if b = [] then None else Some (sum_list b / real (length b))))))"
proof (intro conjI impI)
  assume few: "card (set (map (\<lambda>r. cell_at r ''Cleaning'') (rows d)) - {NaN}) < 2"
  then have "\<not> nunique (map (\<lambda>r. cell_at r ''Cleaning'') (rows d)) > 1"
    by (simp add: nunique_card)
  then show "cleaning_impact_df d = Inr None" and "cleaning_block d = ([], None)"
    by (simp_all add: cleaning_impact_df_def cleaning_block_def)
next
  assume applicable: "''Cleaning'' \<in> set (columns d)
        \<and> 1 < card (set (map (\<lambda>r. cell_at r ''Cleaning'') (rows d)) - {NaN})
        \<and> ''Country'' \<in> set (columns d)
        \<and> ''ModA'' \<in> set (columns d) \<and> ''ModB'' \<in> set (columns d)
        \<and> numeric d ''ModA'' \<and> numeric d ''ModB''"
  let ?t = "map (\<lambda>ck.
                \<lparr>ir_country = fst ck, ir_cleaning = snd ck,
                 ir_ModA = pair_mean d ck ''ModA'', ir_ModB = pair_mean d ck ''ModB'',
                 ir_status = cleaning_status (snd ck)\<rparr>) (pair_keys d)"
  have table: "cleaning_impact_df d = Inr (Some ?t)"
    using applicable by (simp add: cleaning_impact_df_def nunique_card)
  have keys: "map (\<lambda>x. (ir_country x, ir_cleaning x)) ?t = pair_keys d"
    by (simp add: comp_def)
  have dist: "distinct (map (\<lambda>x. (ir_country x, ir_cleaning x)) ?t)"
    by (simp only: keys pair_keys_facts)
  have present: "set (map (\<lambda>x. (ir_country x, ir_cleaning x)) ?t) =
      set (map (\<lambda>r. (cell_at r ''Country'', cell_at r ''Cleaning'')) (rows d))
        \<inter> {(c, k). c \<noteq> NaN \<and> k \<noteq> NaN}"
    unfolding keys pair_keys_facts by (simp add: pair_at_def [abs_def])
  have means: "\<forall>x \<in> set ?t.
      ir_ModA x =
        (let a = nums (map (\<lambda>r. cell_at r ''ModA'')
             (filter (\<lambda>r. cell_at r ''Country'' = ir_country x
                         \<and> cell_at r ''Cleaning'' = ir_cleaning x) (rows d)))
         in if a = [] then None else Some (sum_list a / real (length a)))
      \<and> ir_ModB x =
        (let b = nums (map (\<lambda>r. cell_at r ''ModB'')
             (filter (\<lambda>r. cell_at r ''Country'' = ir_country x
                         \<and> cell_at r ''Cleaning'' = ir_cleaning x) (rows d)))
         in if b = [] then None else Some (sum_list b / real (length b)))"
    by (auto simp: pair_mean_def mean_def pair_at_def prod_eq_iff)
  from table dist present means
  show "\<exists>t. cleaning_impact_df d = Inr (Some t)
         \<and> distinct (map (\<lambda>x. (ir_country x, ir_cleaning x)) t)
         \<and> set (map (\<lambda>x. (ir_country x, ir_cleaning x)) t) =
             set (map (\<lambda>r. (cell_at r ''Country'', cell_at r ''Cleaning'')) (rows d))
               \<inter> {(c, k). c \<noteq> NaN \<and> k \<noteq> NaN}
         \<and> (\<forall>x \<in> set t.
               ir_ModA x =
                 (let a = nums (map (\<lambda>r. cell_at r ''ModA'')
                      (filter (\<lambda>r. cell_at r ''Country'' = ir_country x
                                  \<and> cell_at r ''Cleaning'' = ir_cleaning x) (rows d)))
                  in if a = [] then None else Some (sum_list a / real (length a)))
             \<and> ir_ModB x =
                 (let b = nums (map (\<lambda>r. cell_at r ''ModB'')
                      (filter (\<lambda>r. cell_at r ''Country'' = ir_country x
                                  \<and> cell_at r ''Cleaning'' = ir_cleaning x) (rows d)))
                  in if b = [] then None else Some (sum_list b / real (length b))))"
    by blast
qed



theorem cleaning_impact_applicability_witness:
  "card (set (map (\<lambda>r. cell_at r ''Cleaning'') (rows never_cleaned)) - {NaN}) < 2
   \<and> cleaning_impact_df never_cleaned = Inr None
   \<and> 1 < card (set (map (\<lambda>r. cell_at r ''Cleaning'') (rows sample_frame)) - {NaN})
   \<and> cleaning_impact_df sample_frame = Inr (Some
        [\<lparr>ir_country = Str ''Benin'', ir_cleaning = Num 0, ir_ModA = Some 20, ir_ModB = Some 30,
          ir_status = Str ''No Cleaning''\<rparr>,
         \<lparr>ir_country = Str ''Sierra Leone'', ir_cleaning = Num 0, ir_ModA = Some 10,
          ir_ModB = Some 12, ir_status = Str ''No Cleaning''\<rparr>,
         \<lparr>ir_country = Str ''Sierra Leone'', ir_cleaning = Num 1, ir_ModA = Some 30,
          ir_ModB = Some 36, ir_status = Str ''Cleaning Occurred''\<rparr>,
         \<lparr>ir_country = Str ''Togo'', ir_cleaning = Num 0, ir_ModA = Some 40, ir_ModB = Some 44,
          ir_status = Str ''No Cleaning''\<rparr>])"
proof -
  have few: "card (set (map (\<lambda>r. cell_at r ''Cleaning'') (rows never_cleaned)) - {NaN}) < 2"
    unfolding nunique_card [symmetric]
    by (simp add: nunique_def never_cleaned_def filtered_df_def column_def frame_defs)
  have several: "1 < card (set (map (\<lambda>r. cell_at r ''Cleaning'') (rows sample_frame)) - {NaN})"
    unfolding nunique_card [symmetric]
    by (simp add: nunique_def frame_defs)
  have cols: "''Cleaning'' \<in> set (columns sample_frame)" "''Country'' \<in> set (columns sample_frame)"
      "''ModA'' \<in> set (columns sample_frame)" "''ModB'' \<in> set (columns sample_frame)"
    by (simp_all add: sample_columns)
  have nums: "numeric sample_frame ''ModA''" "numeric sample_frame ''ModB''"
    by (simp_all add: numeric_def frame_defs)
  have table: "cleaning_impact_df sample_frame = Inr (Some
        [\<lparr>ir_country = Str ''Benin'', ir_cleaning = Num 0, ir_ModA = Some 20, ir_ModB = Some 30,
          ir_status = Str ''No Cleaning''\<rparr>,
         \<lparr>ir_country = Str ''Sierra Leone'', ir_cleaning = Num 0, ir_ModA = Some 10,
          ir_ModB = Some 12, ir_status = Str ''No Cleaning''\<rparr>,
         \<lparr>ir_country = Str ''Sierra Leone'', ir_cleaning = Num 1, ir_ModA = Some 30,
          ir_ModB = Some 36, ir_status = Str ''Cleaning Occurred''\<rparr>,
         \<lparr>ir_country = Str ''Togo'', ir_cleaning = Num 0, ir_ModA = Some 40, ir_ModB = Some 44,
          ir_status = Str ''No Cleaning''\<rparr>])"
    by (simp add: cleaning_impact_df_def nunique_def numeric_def pair_keys_def pair_at_def
        pair_mean_def mean_def frame_defs)
  show ?thesis
    using cleaning_impact_applicability [of never_cleaned]
      cleaning_impact_applicability [of sample_frame] few several cols nums table
    by simp
qed

text \<open>
  C10. For a view without a \<^verbatim>\<open>Cleaning\<close> column the cleaning impact is skipped: no table
  is computed, the block makes no call to the page and raises no exception.
\<close>

theorem missing_cleaning_column_skips_impact:
  assumes "''Cleaning'' \<notin> set (columns d)"
  shows "cleaning_impact_df d = Inr None \<and> cleaning_block d = ([], None)"
  using assms by (simp add: cleaning_impact_df_def cleaning_block_def)


theorem missing_cleaning_column_skips_impact_witness:
  "''Cleaning'' \<notin> set (columns togo_without_cleaning)
   \<and> cleaning_impact_df togo_without_cleaning = Inr None
   \<and> cleaning_block togo_without_cleaning = ([], None)"
proof -
  have absent: "''Cleaning'' \<notin> set (columns togo_without_cleaning)"
    by (simp add: togo_without_cleaning_def set_column_def)
  show ?thesis
    using missing_cleaning_column_skips_impact [OF absent] absent by simp
qed

end
